theory Spec2Isabelle
  imports Main "HOL-Library.Word"
begin

section \<open>Data model (main.go, lines 20-30)\<close>

text \<open>
  \<open>primitive.ObjectID\<close> is an array of 12 bytes; its zero value is all zeroes.
  Go's \<open>int\<close> is taken at 64 bits. The handlers do no arithmetic on either.
\<close>

type_synonym ObjectID = "96 word"
type_synonym go_int = "64 word"

definition NilObjectID :: ObjectID where
  "NilObjectID = 0"

record User =
  ID :: ObjectID
  Name :: string
  Age :: go_int

text \<open>
  The BSON document the driver builds from a \<open>User\<close>, following the struct tags
  \<open>bson:"_id,omitempty"\<close>, \<open>bson:"name"\<close>, \<open>bson:"age"\<close>: the \<open>_id\<close> element is left out
  when the field holds the zero ObjectID.
\<close>

record BsonDoc =
  bson_id :: "ObjectID option"
  bson_name :: string
  bson_age :: go_int

definition marshal_User :: "User \<Rightarrow> BsonDoc" where
  "marshal_User u =
     \<lparr>bson_id = (if ID u = NilObjectID then None else Some (ID u)),
      bson_name = Name u, bson_age = Age u\<rparr>"

section \<open>The store (the MongoDB collection \<open>fiberdb.users\<close> behind the driver)\<close>

text \<open>
  The collection is the list of its documents in natural order, each of shape
  \<open>{_id, name, age}\<close>. The record also keeps the calls issued to the driver, so that
  "no store operation" can be stated. A Go \<open>error\<close> is its message.

  What the driver does on one call, and that the handler cannot influence, is an input of
  the model: whether the call returns an error, whether decoding the cursor returns an
  error, and the ObjectID the driver generates for a document sent without \<open>_id\<close>.
  A call that returns an error is taken to leave the collection as it was.
\<close>

type_synonym error = string

datatype Filter = MatchAll | NameIs string

datatype StoreOp =
    OpFind Filter
  | OpInsertOne BsonDoc
  | OpUpdateOne Filter string go_int
  | OpDeleteOne Filter

record Store =
  docs :: "User list"
  ops :: "StoreOp list"

record Env =
  store_err :: "error option"
  decode_err :: "error option"
  new_id :: ObjectID

definition fresh_store :: Store where
  "fresh_store = \<lparr>docs = [], ops = []\<rparr>"

fun matches :: "Filter \<Rightarrow> User \<Rightarrow> bool" where
  "matches MatchAll d = True"
| "matches (NameIs n) d = (Name d = n)"

definition issue :: "StoreOp \<Rightarrow> Store \<Rightarrow> Store" where
  "issue op s = s\<lparr>ops := ops s @ [op]\<rparr>"

text \<open>A nil slice and an empty slice are different Go values: JSON renders the first as
  \<open>null\<close> and the second as \<open>[]\<close>.\<close>

datatype 'a slice = NilSlice | Slice "'a list"

text \<open>\<open>Collection.Find\<close> returns a cursor over the matching documents.\<close>

definition Find :: "Env \<Rightarrow> Filter \<Rightarrow> Store \<Rightarrow> (error + User list) \<times> Store" where
  "Find env f s =
     (case store_err env of
        Some e \<Rightarrow> (Inl e, issue (OpFind f) s)
      | None \<Rightarrow> (Inr (filter (matches f) (docs s)), issue (OpFind f) s))"

text \<open>\<open>Cursor.All\<close> decodes the documents of the cursor into the slice it is given. The
  handler gives it \<open>var users []User\<close>, a nil slice, which is still nil afterwards when
  the cursor holds no document.\<close>

definition cursor_All :: "Env \<Rightarrow> User list \<Rightarrow> error + User slice" where
  "cursor_All env cursor =
     (case decode_err env of
        Some e \<Rightarrow> Inl e
      | None \<Rightarrow> Inr (if cursor = [] then NilSlice else Slice cursor))"

text \<open>\<open>Collection.InsertOne\<close>: a document without \<open>_id\<close> gets a generated one; the
  collection refuses an \<open>_id\<close> it already holds (duplicate key).\<close>

record InsertOneResult =
  InsertedID :: ObjectID

definition InsertOne :: "Env \<Rightarrow> BsonDoc \<Rightarrow> Store \<Rightarrow> (error + InsertOneResult) \<times> Store" where
  "InsertOne env d s =
     (case store_err env of
        Some e \<Rightarrow> (Inl e, issue (OpInsertOne d) s)
      | None \<Rightarrow>
          (let i = (case bson_id d of None \<Rightarrow> new_id env | Some x \<Rightarrow> x) in
           if i \<in> set (map ID (docs s))
           then (Inl ''E11000 duplicate key error'', issue (OpInsertOne d) s)
           else (Inr \<lparr>InsertedID = i\<rparr>,
                 issue (OpInsertOne d)
                   (s\<lparr>docs := docs s @ [\<lparr>ID = i, Name = bson_name d, Age = bson_age d\<rparr>]\<rparr>))))"

text \<open>\<open>Collection.UpdateOne\<close> with the update \<open>{"$set": {"name": n, "age": a}}\<close>: the first
  matching document gets both fields replaced.\<close>

record UpdateResult =
  MatchedCount :: nat

fun update_first :: "Filter \<Rightarrow> string \<Rightarrow> go_int \<Rightarrow> User list \<Rightarrow> User list" where
  "update_first f n a [] = []"
| "update_first f n a (d # ds) =
     (if matches f d then d\<lparr>Name := n, Age := a\<rparr> # ds else d # update_first f n a ds)"

definition UpdateOne ::
    "Env \<Rightarrow> Filter \<Rightarrow> string \<Rightarrow> go_int \<Rightarrow> Store \<Rightarrow> (error + UpdateResult) \<times> Store" where
  "UpdateOne env f n a s =
     (case store_err env of
        Some e \<Rightarrow> (Inl e, issue (OpUpdateOne f n a) s)
      | None \<Rightarrow>
          (Inr \<lparr>MatchedCount = (if filter (matches f) (docs s) = [] then 0 else 1)\<rparr>,
           issue (OpUpdateOne f n a) (s\<lparr>docs := update_first f n a (docs s)\<rparr>)))"

text \<open>\<open>Collection.DeleteOne\<close> removes the first matching document.\<close>

record DeleteResult =
  DeletedCount :: nat

fun delete_first :: "Filter \<Rightarrow> User list \<Rightarrow> User list" where
  "delete_first f [] = []"
| "delete_first f (d # ds) = (if matches f d then ds else d # delete_first f ds)"

definition DeleteOne :: "Env \<Rightarrow> Filter \<Rightarrow> Store \<Rightarrow> (error + DeleteResult) \<times> Store" where
  "DeleteOne env f s =
     (case store_err env of
        Some e \<Rightarrow> (Inl e, issue (OpDeleteOne f) s)
      | None \<Rightarrow>
          (Inr \<lparr>DeletedCount = (if filter (matches f) (docs s) = [] then 0 else 1)\<rparr>,
           issue (OpDeleteOne f) (s\<lparr>docs := delete_first f (docs s)\<rparr>)))"

section \<open>Requests and responses (fiber)\<close>

text \<open>
  A request context carries the route parameters and what \<open>c.BodyParser\<close> makes of the
  body when it is given a \<open>User\<close> of zero values: an error (malformed JSON, a field of
  the wrong type, an unsupported content type), or the struct it filled, where a member
  the body does not mention keeps its zero value. The body \<open>{"name":"Alice","age":30}\<close> is
  \<open>Inr \<lparr>ID = NilObjectID, Name = ''Alice'', Age = 30\<rparr>\<close>.
\<close>

record Ctx =
  route_params :: "(string \<times> string) list"
  parsed_body :: "error + User"

definition Params :: "Ctx \<Rightarrow> string \<Rightarrow> string" where
  "Params c key = (case map_of (route_params c) key of None \<Rightarrow> [] | Some v \<Rightarrow> v)"

definition BodyParser :: "Ctx \<Rightarrow> error + User" where
  "BodyParser c = parsed_body c"

text \<open>The Go values the handlers hand to \<open>c.JSON\<close>: a \<open>fiber.Map\<close> (its entries, by
  key) or the slice of users.\<close>

datatype JSONValue = JString string | JObjectID ObjectID | JUser User

datatype Body = FiberMap "(string \<times> JSONValue) list" | Users "User slice"

record Response =
  status :: nat
  body :: Body

definition JSON :: "nat \<Rightarrow> Body \<Rightarrow> Response" where
  "JSON code b = \<lparr>status = code, body = b\<rparr>"

definition field :: "Response \<Rightarrow> string \<Rightarrow> JSONValue option" where
  "field r key = (case body r of FiberMap kvs \<Rightarrow> map_of kvs key | Users us \<Rightarrow> None)"

section \<open>The handlers (main.go, lines 84-180)\<close>

definition rocket :: string where
  "rocket = [CHR 0xF0, CHR 0x9F, CHR 0x9A, CHR 0x80]"

definition get_home :: "Store \<Rightarrow> Response \<times> Store" where
  "get_home s =
     (JSON 200 (FiberMap [(''message'', JString (rocket @ '' Fiber + MongoDB API running''))]), s)"

definition get_users :: "Env \<Rightarrow> Store \<Rightarrow> Response \<times> Store" where
  "get_users env s =
     (case Find env MatchAll s of
        (Inl err, s1) \<Rightarrow>
          (JSON 500 (FiberMap [(''error'', JString ''Failed to fetch users'')]), s1)
      | (Inr cursor, s1) \<Rightarrow>
          (case cursor_All env cursor of
             Inl err \<Rightarrow>
               (JSON 500 (FiberMap [(''error'', JString ''Failed to decode users'')]), s1)
           | Inr users \<Rightarrow>
               (JSON 200 (Users (if users = NilSlice then Slice [] else users)), s1)))"

definition post_user :: "Env \<Rightarrow> Ctx \<Rightarrow> Store \<Rightarrow> Response \<times> Store" where
  "post_user env c s =
     (case BodyParser c of
        Inl err \<Rightarrow> (JSON 400 (FiberMap [(''error'', JString ''Invalid JSON'')]), s)
      | Inr user \<Rightarrow>
          if Name user = [] then
            (JSON 400 (FiberMap [(''error'', JString ''Name is required'')]), s)
          else
            (case InsertOne env (marshal_User user) s of
               (Inl err, s1) \<Rightarrow>
                 (JSON 500 (FiberMap [(''error'', JString ''Failed to create user'')]), s1)
             | (Inr result, s1) \<Rightarrow>
                 (JSON 201 (FiberMap
                    [(''message'', JString ''User created successfully''),
                     (''id'', JObjectID (InsertedID result)),
                     (''user'', JUser user)]), s1)))"

definition put_user :: "Env \<Rightarrow> Ctx \<Rightarrow> Store \<Rightarrow> Response \<times> Store" where
  "put_user env c s =
     (let name = Params c ''name'' in
      case BodyParser c of
        Inl err \<Rightarrow> (JSON 400 (FiberMap [(''error'', JString ''Invalid JSON'')]), s)
      | Inr updateData \<Rightarrow>
          (case UpdateOne env (NameIs name) (Name updateData) (Age updateData) s of
             (Inl err, s1) \<Rightarrow>
               (JSON 500 (FiberMap [(''error'', JString ''Failed to update user'')]), s1)
           | (Inr result, s1) \<Rightarrow>
               if MatchedCount result = 0 then
                 (JSON 404 (FiberMap [(''error'', JString ''User not found'')]), s1)
               else
                 (JSON 200 (FiberMap
                    [(''message'', JString ''User updated successfully''),
                     (''user'', JUser updateData)]), s1)))"

definition delete_user :: "Env \<Rightarrow> Ctx \<Rightarrow> Store \<Rightarrow> Response \<times> Store" where
  "delete_user env c s =
     (let name = Params c ''name'' in
      case DeleteOne env (NameIs name) s of
        (Inl err, s1) \<Rightarrow>
          (JSON 500 (FiberMap [(''error'', JString ''Failed to delete user'')]), s1)
      | (Inr result, s1) \<Rightarrow>
          if DeletedCount result = 0 then
            (JSON 404 (FiberMap [(''error'', JString ''User not found'')]), s1)
          else
            (JSON 200 (FiberMap
               [(''message'', JString ''User deleted successfully''),
                (''name'', JString name)]), s1))"

text \<open>The route table, and a run of requests against the store, one after the other.\<close>

datatype Route = GET_root | GET_users | POST_user | PUT_user_name | DELETE_user_name

fun handle :: "Route \<Rightarrow> Env \<Rightarrow> Ctx \<Rightarrow> Store \<Rightarrow> Response \<times> Store" where
  "handle GET_root env c s = get_home s"
| "handle GET_users env c s = get_users env s"
| "handle POST_user env c s = post_user env c s"
| "handle PUT_user_name env c s = put_user env c s"
| "handle DELETE_user_name env c s = delete_user env c s"

fun run :: "(Route \<times> Env \<times> Ctx) list \<Rightarrow> Store \<Rightarrow> Response list \<times> Store" where
  "run [] s = ([], s)"
| "run ((r, env, c) # reqs) s =
     (case handle r env c s of
        (resp, s1) \<Rightarrow> (case run reqs s1 of (resps, s2) \<Rightarrow> (resp # resps, s2)))"

section \<open>Startup (main.go, lines 32-80 and 182-194)\<close>

text \<open>
  What the process sees at startup: its environment variables, the \<open>.env\<close> files that
  \<open>godotenv.Load\<close> can open and parse (by path, with the variables each one defines),
  what \<open>mongo.Connect\<close> and \<open>Ping\<close> answer for a connection string, and what the
  process has printed, logged and opened so far. \<open>log.Fatal\<close> writes its message to the
  log and exits with status 1.
\<close>

datatype Event = Print string | Log string | Listen string

record World =
  environ :: "string \<rightharpoonup> string"
  dotenv_files :: "string \<rightharpoonup> (string \<rightharpoonup> string)"
  connect :: "string \<Rightarrow> error option"
  ping :: "string \<Rightarrow> error option"
  out :: "Event list"

datatype Proc = Exit nat World | Cont World

definition emit :: "Event \<Rightarrow> World \<Rightarrow> World" where
  "emit ev w = w\<lparr>out := out w @ [ev]\<rparr>"

definition log_Fatal :: "string \<Rightarrow> World \<Rightarrow> Proc" where
  "log_Fatal msg w = Exit 1 (emit (Log msg) w)"

definition os_Getenv :: "World \<Rightarrow> string \<Rightarrow> string" where
  "os_Getenv w key = (case environ w key of None \<Rightarrow> [] | Some v \<Rightarrow> v)"

text \<open>\<open>godotenv.Load\<close> sets the variables of the file that the environment does not have
  yet, and returns an error when it cannot read the file.\<close>

definition godotenv_Load :: "string \<Rightarrow> World \<Rightarrow> error option \<times> World" where
  "godotenv_Load path w =
     (case dotenv_files w path of
        None \<Rightarrow> (Some (''open '' @ path @ '': no such file or directory''), w)
      | Some vars \<Rightarrow> (None, w\<lparr>environ := vars ++ environ w\<rparr>))"

definition check_mark :: string where
  "check_mark = [CHR 0xE2, CHR 0x9C, CHR 0x85]"

definition cross_mark :: string where
  "cross_mark = [CHR 0xE2, CHR 0x9D, CHR 0x8C]"

definition arrows :: string where
  "arrows = [CHR 0xF0, CHR 0x9F, CHR 0x94, CHR 0x84]"

definition newline :: string where
  "newline = [CHR 0x0A]"

fun loadEnv_loop :: "string list \<Rightarrow> World \<Rightarrow> World" where
  "loadEnv_loop [] w = w"
| "loadEnv_loop (path # paths) w =
     (case godotenv_Load path w of
        (None, w1) \<Rightarrow> emit (Print (check_mark @ '' .env loaded from: '' @ path @ newline)) w1
      | (Some err, w1) \<Rightarrow> loadEnv_loop paths w1)"

definition loadEnv :: "World \<Rightarrow> World" where
  "loadEnv w = loadEnv_loop [''.env'', ''../.env'', ''../../.env''] w"

definition connectMongoDB :: "World \<Rightarrow> Proc" where
  "connectMongoDB w =
     (let mongoURI = os_Getenv w ''MONGO_URI'' in
      if mongoURI = [] then
        log_Fatal (cross_mark @
          '' MONGO_URI missing! Create .env file with MONGO_URI=your_connection_string'') w
      else
        (let w1 = emit (Print (arrows @ '' Connecting to MongoDB...'' @ newline)) w in
         case connect w1 mongoURI of
           Some err \<Rightarrow> log_Fatal (cross_mark @ '' MongoDB connection failed:'' @ err) w1
         | None \<Rightarrow>
             (case ping w1 mongoURI of
                Some err \<Rightarrow> log_Fatal (cross_mark @ '' MongoDB ping failed:'' @ err) w1
              | None \<Rightarrow>
                  Cont (emit (Print (check_mark @ '' MongoDB connected successfully!'' @ newline))
                          w1))))"

text \<open>\<open>main\<close> up to the point where the server listens; waiting for the signal and the
  shutdown that follows are not part of this model.\<close>

definition main :: "World \<Rightarrow> Proc" where
  "main w =
     (case connectMongoDB (loadEnv w) of
        Exit code w1 \<Rightarrow> Exit code w1
      | Cont w1 \<Rightarrow>
          (let port = (if os_Getenv w1 ''PORT'' = [] then ''5000'' else os_Getenv w1 ''PORT'') in
           Cont (emit (Print (rocket @ '' Server running on http://localhost:'' @ port @ newline))
                   (emit (Listen ('':'' @ port)) w1))))"

fun is_Listen :: "Event \<Rightarrow> bool" where
  "is_Listen (Listen addr) = True"
| "is_Listen ev = False"

section \<open>Facts about the store operations and the startup steps\<close>

lemma filter_NameIs_empty:
  "(filter (matches (NameIs n)) ds = []) = (n \<notin> set (map Name ds))"
  by (induction ds) auto

lemma update_first_no_match:
  "n \<notin> set (map Name ds) \<Longrightarrow> update_first (NameIs n) n' a ds = ds"
  by (induction ds) auto

lemma delete_first_no_match:
  "n \<notin> set (map Name ds) \<Longrightarrow> delete_first (NameIs n) ds = ds"
  by (induction ds) auto

lemma update_first_split:
  "n \<in> set (map Name ds) \<Longrightarrow>
   \<exists>pre d post. ds = pre @ d # post \<and> n \<notin> set (map Name pre) \<and> Name d = n \<and>
     update_first (NameIs n) n' a ds = pre @ d\<lparr>Name := n', Age := a\<rparr> # post"
proof (induction ds)
  case Nil
  then show ?case by simp
next
  case (Cons x xs)
  show ?case
  proof (cases "Name x = n")
    case True
    then have "x # xs = [] @ x # xs \<and> n \<notin> set (map Name []) \<and> Name x = n \<and>
      update_first (NameIs n) n' a (x # xs) = [] @ x\<lparr>Name := n', Age := a\<rparr> # xs"
      by simp
    then show ?thesis by blast
  next
    case False
    with Cons.prems have "n \<in> set (map Name xs)" by auto
    from Cons.IH[OF this] obtain pre d post where
      h: "xs = pre @ d # post" "n \<notin> set (map Name pre)" "Name d = n"
         "update_first (NameIs n) n' a xs = pre @ d\<lparr>Name := n', Age := a\<rparr> # post"
      by blast
    from h False have "x # xs = (x # pre) @ d # post \<and> n \<notin> set (map Name (x # pre)) \<and> Name d = n \<and>
      update_first (NameIs n) n' a (x # xs) = (x # pre) @ d\<lparr>Name := n', Age := a\<rparr> # post"
      by auto
    then show ?thesis by blast
  qed
qed

lemma loadEnv_loop_frame:
  "connect (loadEnv_loop ps w) = connect w \<and> ping (loadEnv_loop ps w) = ping w \<and>
   (\<exists>evs. out (loadEnv_loop ps w) = out w @ evs \<and> filter is_Listen evs = [])"
  by (induction ps arbitrary: w)
     (auto simp add: godotenv_Load_def emit_def split: option.splits)

lemma loadEnv_frame:
  "connect (loadEnv w) = connect w \<and> ping (loadEnv w) = ping w \<and>
   (\<exists>evs. out (loadEnv w) = out w @ evs \<and> filter is_Listen evs = [])"
  unfolding loadEnv_def by (rule loadEnv_loop_frame)

lemma connectMongoDB_fatal:
  assumes "os_Getenv w ''MONGO_URI'' = [] \<or>
           connect w (os_Getenv w ''MONGO_URI'') \<noteq> None \<or>
           ping w (os_Getenv w ''MONGO_URI'') \<noteq> None"
  shows "\<exists>w' evs msg. connectMongoDB w = Exit 1 w' \<and> out w' = out w @ evs @ [Log msg] \<and>
           filter is_Listen evs = []"
proof (cases "os_Getenv w ''MONGO_URI'' = []")
  case True
  then have "connectMongoDB w = Exit 1 (emit (Log (cross_mark @
      '' MONGO_URI missing! Create .env file with MONGO_URI=your_connection_string'')) w)"
    by (simp add: connectMongoDB_def log_Fatal_def)
  moreover have "out (emit (Log (cross_mark @
      '' MONGO_URI missing! Create .env file with MONGO_URI=your_connection_string'')) w)
      = out w @ [] @ [Log (cross_mark @
      '' MONGO_URI missing! Create .env file with MONGO_URI=your_connection_string'')]"
    by (simp add: emit_def)
  ultimately show ?thesis by (metis filter.simps(1))
next
  case False
  let ?uri = "os_Getenv w ''MONGO_URI''"
  let ?w1 = "emit (Print (arrows @ '' Connecting to MongoDB...'' @ newline)) w"
  show ?thesis
  proof (cases "connect w ?uri")
    case (Some err)
    with False have "connectMongoDB w =
        Exit 1 (emit (Log (cross_mark @ '' MongoDB connection failed:'' @ err)) ?w1)"
      by (simp add: connectMongoDB_def log_Fatal_def Let_def emit_def)
    moreover have "out (emit (Log (cross_mark @ '' MongoDB connection failed:'' @ err)) ?w1)
        = out w @ [Print (arrows @ '' Connecting to MongoDB...'' @ newline)] @
          [Log (cross_mark @ '' MongoDB connection failed:'' @ err)]"
      by (simp add: emit_def)
    moreover have "filter is_Listen [Print (arrows @ '' Connecting to MongoDB...'' @ newline)] = []"
      by simp
    ultimately show ?thesis by blast
  next
    case None
    with assms False obtain err where pe: "ping w ?uri = Some err" by auto
    with None False have "connectMongoDB w =
        Exit 1 (emit (Log (cross_mark @ '' MongoDB ping failed:'' @ err)) ?w1)"
      by (simp add: connectMongoDB_def log_Fatal_def Let_def emit_def)
    moreover have "out (emit (Log (cross_mark @ '' MongoDB ping failed:'' @ err)) ?w1)
        = out w @ [Print (arrows @ '' Connecting to MongoDB...'' @ newline)] @
          [Log (cross_mark @ '' MongoDB ping failed:'' @ err)]"
      by (simp add: emit_def)
    moreover have "filter is_Listen [Print (arrows @ '' Connecting to MongoDB...'' @ newline)] = []"
      by simp
    ultimately show ?thesis by blast
  qed
qed

section \<open>The round trip\<close>

text \<open>
  C1. On a fresh store that answers every call, whatever ids the driver would generate:
  POST /user with \<open>{"name":"Alice","age":30}\<close> returns 201 and echoes the user; GET /users
  returns exactly one entry, Alice aged 30 under the generated id; PUT /user/Alice with
  \<open>{"name":"Alice","age":31}\<close> returns 200; GET /users shows age 31; DELETE /user/Alice
  returns 200; GET /users returns the empty array.
\<close>

theorem round_trip:
  "run [(POST_user, \<lparr>store_err = None, decode_err = None, new_id = g\<rparr>,
           \<lparr>route_params = [], parsed_body = Inr \<lparr>ID = NilObjectID, Name = ''Alice'', Age = 30\<rparr>\<rparr>),
        (GET_users, \<lparr>store_err = None, decode_err = None, new_id = g2\<rparr>,
           \<lparr>route_params = [], parsed_body = Inl []\<rparr>),
        (PUT_user_name, \<lparr>store_err = None, decode_err = None, new_id = g3\<rparr>,
           \<lparr>route_params = [(''name'', ''Alice'')],
            parsed_body = Inr \<lparr>ID = NilObjectID, Name = ''Alice'', Age = 31\<rparr>\<rparr>),
        (GET_users, \<lparr>store_err = None, decode_err = None, new_id = g4\<rparr>,
           \<lparr>route_params = [], parsed_body = Inl []\<rparr>),
        (DELETE_user_name, \<lparr>store_err = None, decode_err = None, new_id = g5\<rparr>,
           \<lparr>route_params = [(''name'', ''Alice'')], parsed_body = Inl []\<rparr>),
        (GET_users, \<lparr>store_err = None, decode_err = None, new_id = g6\<rparr>,
           \<lparr>route_params = [], parsed_body = Inl []\<rparr>)]
       fresh_store =
     ([JSON 201 (FiberMap [(''message'', JString ''User created successfully''),
                           (''id'', JObjectID g),
                           (''user'', JUser \<lparr>ID = NilObjectID, Name = ''Alice'', Age = 30\<rparr>)]),
       JSON 200 (Users (Slice [\<lparr>ID = g, Name = ''Alice'', Age = 30\<rparr>])),
       JSON 200 (FiberMap [(''message'', JString ''User updated successfully''),
                           (''user'', JUser \<lparr>ID = NilObjectID, Name = ''Alice'', Age = 31\<rparr>)]),
       JSON 200 (Users (Slice [\<lparr>ID = g, Name = ''Alice'', Age = 31\<rparr>])),
       JSON 200 (FiberMap [(''message'', JString ''User deleted successfully''),
                           (''name'', JString ''Alice'')]),
       JSON 200 (Users (Slice []))],
      \<lparr>docs = [],
       ops = [OpInsertOne \<lparr>bson_id = None, bson_name = ''Alice'', bson_age = 30\<rparr>,
              OpFind MatchAll,
              OpUpdateOne (NameIs ''Alice'') ''Alice'' 31,
              OpFind MatchAll,
              OpDeleteOne (NameIs ''Alice''),
              OpFind MatchAll]\<rparr>)"
  by (simp add: post_user_def get_users_def put_user_def delete_user_def
      BodyParser_def Params_def InsertOne_def Find_def cursor_All_def UpdateOne_def
      DeleteOne_def marshal_User_def issue_def fresh_store_def JSON_def Let_def)

text \<open>
  The round trip of C1 with the generated ids 7 to 12: the response to the second GET.
\<close>

theorem round_trip_witness:
  "fst (run [(POST_user, \<lparr>store_err = None, decode_err = None, new_id = 7\<rparr>,
           \<lparr>route_params = [], parsed_body = Inr \<lparr>ID = NilObjectID, Name = ''Alice'', Age = 30\<rparr>\<rparr>),
        (GET_users, \<lparr>store_err = None, decode_err = None, new_id = 8\<rparr>,
           \<lparr>route_params = [], parsed_body = Inl []\<rparr>),
        (PUT_user_name, \<lparr>store_err = None, decode_err = None, new_id = 9\<rparr>,
           \<lparr>route_params = [(''name'', ''Alice'')],
            parsed_body = Inr \<lparr>ID = NilObjectID, Name = ''Alice'', Age = 31\<rparr>\<rparr>),
        (GET_users, \<lparr>store_err = None, decode_err = None, new_id = 10\<rparr>,
           \<lparr>route_params = [], parsed_body = Inl []\<rparr>),
        (DELETE_user_name, \<lparr>store_err = None, decode_err = None, new_id = 11\<rparr>,
           \<lparr>route_params = [(''name'', ''Alice'')], parsed_body = Inl []\<rparr>),
        (GET_users, \<lparr>store_err = None, decode_err = None, new_id = 12\<rparr>,
           \<lparr>route_params = [], parsed_body = Inl []\<rparr>)]
       fresh_store) ! 3 = JSON 200 (Users (Slice [\<lparr>ID = 7, Name = ''Alice'', Age = 31\<rparr>]))"
  using round_trip [of 7 8 9 10 11 12] by simp

section \<open>Client input errors\<close>

text \<open>
  C2. A request whose body \<open>BodyParser\<close> rejects gets status 400 from the POST and from
  the PUT handler, and a POST whose parsed name is empty (an empty or a missing
  \<open>name\<close>) gets status 400; in each case the store is as before, collection and issued
  calls alike, whatever the driver would have answered; the status is not 500.
\<close>

theorem bad_input_rejected:
  "(BodyParser c = Inl e \<longrightarrow>
      status (fst (post_user env c s)) = 400 \<and> status (fst (post_user env c s)) \<noteq> 500 \<and>
      snd (post_user env c s) = s \<and>
      status (fst (put_user env c s)) = 400 \<and> status (fst (put_user env c s)) \<noteq> 500 \<and>
      snd (put_user env c s) = s) \<and>
   (BodyParser c = Inr u \<and> Name u = [] \<longrightarrow>
      status (fst (post_user env c s)) = 400 \<and> status (fst (post_user env c s)) \<noteq> 500 \<and>
      snd (post_user env c s) = s)"
  by (simp add: post_user_def put_user_def JSON_def)

text \<open>
  C2 at a truncated body on PUT and POST, and at a body without name on POST.
\<close>

theorem bad_input_rejected_witness:
  "BodyParser \<lparr>route_params = [(''name'', ''Bob'')],
               parsed_body = Inl ''unexpected end of JSON input''\<rparr>
     = Inl ''unexpected end of JSON input'' \<and>
   status (fst (put_user \<lparr>store_err = None, decode_err = None, new_id = 7\<rparr>
     \<lparr>route_params = [(''name'', ''Bob'')],
      parsed_body = Inl ''unexpected end of JSON input''\<rparr> fresh_store)) = 400 \<and>
   snd (post_user \<lparr>store_err = None, decode_err = None, new_id = 7\<rparr>
     \<lparr>route_params = [(''name'', ''Bob'')],
      parsed_body = Inl ''unexpected end of JSON input''\<rparr> fresh_store) = fresh_store \<and>
   BodyParser \<lparr>route_params = [], parsed_body = Inr \<lparr>ID = 0, Name = [], Age = 30\<rparr>\<rparr>
     = Inr \<lparr>ID = 0, Name = [], Age = 30\<rparr> \<and>
   Name \<lparr>ID = 0 :: ObjectID, Name = [], Age = 30 :: go_int\<rparr> = [] \<and>
   status (fst (post_user \<lparr>store_err = None, decode_err = None, new_id = 7\<rparr>
     \<lparr>route_params = [], parsed_body = Inr \<lparr>ID = 0, Name = [], Age = 30\<rparr>\<rparr>
     fresh_store)) = 400"
  using bad_input_rejected
    [of "\<lparr>route_params = [(''name'', ''Bob'')],
          parsed_body = Inl ''unexpected end of JSON input''\<rparr>"
        "''unexpected end of JSON input''"
        "\<lparr>store_err = None, decode_err = None, new_id = 7\<rparr>" fresh_store]
    bad_input_rejected
    [of "\<lparr>route_params = [], parsed_body = Inr \<lparr>ID = 0, Name = [], Age = 30\<rparr>\<rparr>"
        _ "\<lparr>store_err = None, decode_err = None, new_id = 7\<rparr>" fresh_store
        "\<lparr>ID = 0, Name = [], Age = 30\<rparr>"]
  by (simp add: BodyParser_def)

section \<open>Creating a user\<close>

text \<open>
  C3 as stated fails: the body
  \<open>{"_id":"000000000000000000000001","name":"Erin","age":25}\<close> is inserted under the id 1
  that the client chose; the \<open>id\<close> member of
  the 201 response is 1, not the id 7 the driver would have generated, and the following
  GET /users shows the document under 1.
\<close>

theorem post_created_counterexample:
  "BodyParser \<lparr>route_params = [], parsed_body = Inr \<lparr>ID = 1, Name = ''Erin'', Age = 25\<rparr>\<rparr>
     = Inr \<lparr>ID = 1, Name = ''Erin'', Age = 25\<rparr> \<and>
   post_user \<lparr>store_err = None, decode_err = None, new_id = 7\<rparr>
     \<lparr>route_params = [], parsed_body = Inr \<lparr>ID = 1, Name = ''Erin'', Age = 25\<rparr>\<rparr> fresh_store
     = (JSON 201 (FiberMap [(''message'', JString ''User created successfully''),
                            (''id'', JObjectID 1),
                            (''user'', JUser \<lparr>ID = 1, Name = ''Erin'', Age = 25\<rparr>)]),
        \<lparr>docs = [\<lparr>ID = 1, Name = ''Erin'', Age = 25\<rparr>],
         ops = [OpInsertOne \<lparr>bson_id = Some 1, bson_name = ''Erin'', bson_age = 25\<rparr>]\<rparr>) \<and>
   field (fst (post_user \<lparr>store_err = None, decode_err = None, new_id = 7\<rparr>
     \<lparr>route_params = [], parsed_body = Inr \<lparr>ID = 1, Name = ''Erin'', Age = 25\<rparr>\<rparr> fresh_store))
     ''id'' \<noteq> Some (JObjectID (new_id \<lparr>store_err = None, decode_err = None, new_id = 7\<rparr>)) \<and>
   fst (get_users \<lparr>store_err = None, decode_err = None, new_id = 8\<rparr>
     (snd (post_user \<lparr>store_err = None, decode_err = None, new_id = 7\<rparr>
       \<lparr>route_params = [], parsed_body = Inr \<lparr>ID = 1, Name = ''Erin'', Age = 25\<rparr>\<rparr>
       fresh_store)))
     = JSON 200 (Users (Slice [\<lparr>ID = 1, Name = ''Erin'', Age = 25\<rparr>]))"
  by (simp add: post_user_def BodyParser_def InsertOne_def marshal_User_def NilObjectID_def
      issue_def JSON_def fresh_store_def field_def get_users_def Find_def cursor_All_def)

text \<open>
  C3, amended. For a parsable body with a non-empty name, when the insert succeeds the
  handler returns 201 with the inserted id and the echoed user; the inserted id is the
  one the driver generates when the body carries no \<open>_id\<close> and the body's \<open>_id\<close> otherwise;
  no document of the collection had it before; a following GET /users that succeeds
  includes a document with that id and the name and age of the body.
\<close>

theorem post_created:
  assumes "BodyParser c = Inr u" and "Name u \<noteq> []"
    and "fst (InsertOne env (marshal_User u) s) = Inr res"
  shows "status (fst (post_user env c s)) = 201 \<and>
         field (fst (post_user env c s)) ''id'' = Some (JObjectID (InsertedID res)) \<and>
         field (fst (post_user env c s)) ''user'' = Some (JUser u) \<and>
         InsertedID res = (if ID u = NilObjectID then new_id env else ID u) \<and>
         InsertedID res \<notin> set (map ID (docs s)) \<and>
         (status (fst (get_users env2 (snd (post_user env c s)))) = 200 \<longrightarrow>
            (\<exists>us. body (fst (get_users env2 (snd (post_user env c s)))) = Users (Slice us) \<and>
                  \<lparr>ID = InsertedID res, Name = Name u, Age = Age u\<rparr> \<in> set us))"
  using assms
  by (auto simp add: post_user_def InsertOne_def marshal_User_def issue_def JSON_def Let_def
      field_def get_users_def Find_def cursor_All_def
      split: sum.splits option.splits if_splits)

text \<open>
  C3, amended, at the body \<open>{"name":"Dave","age":52}\<close> on a collection that holds Alice.
\<close>

theorem post_created_witness:
  "BodyParser \<lparr>route_params = [],
               parsed_body = Inr \<lparr>ID = NilObjectID, Name = ''Dave'', Age = 52\<rparr>\<rparr>
     = Inr \<lparr>ID = NilObjectID, Name = ''Dave'', Age = 52\<rparr> \<and>
   Name \<lparr>ID = NilObjectID, Name = ''Dave'', Age = 52 :: go_int\<rparr> \<noteq> [] \<and>
   fst (InsertOne \<lparr>store_err = None, decode_err = None, new_id = 7\<rparr>
          (marshal_User \<lparr>ID = NilObjectID, Name = ''Dave'', Age = 52\<rparr>)
          \<lparr>docs = [\<lparr>ID = 3, Name = ''Alice'', Age = 30\<rparr>], ops = []\<rparr>)
     = Inr \<lparr>InsertedID = 7\<rparr> \<and>
   status (fst (post_user \<lparr>store_err = None, decode_err = None, new_id = 7\<rparr>
     \<lparr>route_params = [], parsed_body = Inr \<lparr>ID = NilObjectID, Name = ''Dave'', Age = 52\<rparr>\<rparr>
     \<lparr>docs = [\<lparr>ID = 3, Name = ''Alice'', Age = 30\<rparr>], ops = []\<rparr>)) = 201 \<and>
   field (fst (post_user \<lparr>store_err = None, decode_err = None, new_id = 7\<rparr>
     \<lparr>route_params = [], parsed_body = Inr \<lparr>ID = NilObjectID, Name = ''Dave'', Age = 52\<rparr>\<rparr>
     \<lparr>docs = [\<lparr>ID = 3, Name = ''Alice'', Age = 30\<rparr>], ops = []\<rparr>)) ''id''
     = Some (JObjectID 7) \<and>
   status (fst (get_users \<lparr>store_err = None, decode_err = None, new_id = 8\<rparr>
     (snd (post_user \<lparr>store_err = None, decode_err = None, new_id = 7\<rparr>
       \<lparr>route_params = [], parsed_body = Inr \<lparr>ID = NilObjectID, Name = ''Dave'', Age = 52\<rparr>\<rparr>
       \<lparr>docs = [\<lparr>ID = 3, Name = ''Alice'', Age = 30\<rparr>], ops = []\<rparr>)))) = 200 \<and>
   (\<exists>us. body (fst (get_users \<lparr>store_err = None, decode_err = None, new_id = 8\<rparr>
     (snd (post_user \<lparr>store_err = None, decode_err = None, new_id = 7\<rparr>
       \<lparr>route_params = [], parsed_body = Inr \<lparr>ID = NilObjectID, Name = ''Dave'', Age = 52\<rparr>\<rparr>
       \<lparr>docs = [\<lparr>ID = 3, Name = ''Alice'', Age = 30\<rparr>], ops = []\<rparr>)))) = Users (Slice us) \<and>
     \<lparr>ID = 7, Name = ''Dave'', Age = 52\<rparr> \<in> set us)"
proof -
  let ?u = "\<lparr>ID = NilObjectID, Name = ''Dave'', Age = 52 :: go_int\<rparr>"
  let ?c = "\<lparr>route_params = [], parsed_body = Inr ?u\<rparr>"
  let ?s = "\<lparr>docs = [\<lparr>ID = 3, Name = ''Alice'', Age = 30\<rparr>], ops = []\<rparr>"
  let ?env = "\<lparr>store_err = None, decode_err = None, new_id = 7\<rparr>"
  let ?env2 = "\<lparr>store_err = None, decode_err = None, new_id = 8\<rparr>"
  have h1: "BodyParser ?c = Inr ?u" by (simp add: BodyParser_def)
  have h2: "Name ?u \<noteq> []" by simp
  have h3: "fst (InsertOne ?env (marshal_User ?u) ?s) = Inr \<lparr>InsertedID = 7\<rparr>"
    by (simp add: InsertOne_def marshal_User_def NilObjectID_def)
  have h4: "status (fst (get_users ?env2 (snd (post_user ?env ?c ?s)))) = 200"
    by (simp add: get_users_def Find_def cursor_All_def JSON_def post_user_def
        BodyParser_def InsertOne_def marshal_User_def NilObjectID_def issue_def)
  from post_created [OF h1 h2 h3, of ?env2] h1 h2 h3 h4 show ?thesis by simp
qed

section \<open>Listing an empty collection\<close>

text \<open>
  C4. On an empty collection, a GET /users whose store calls return no error answers
  200 with the empty slice, which JSON renders as \<open>[]\<close>; any GET /users that answers 200
  has that body; and the body is in no case the nil slice, which JSON would render as
  \<open>null\<close>.
\<close>

theorem get_users_empty:
  assumes "docs s = []"
  shows "(store_err env = None \<and> decode_err env = None \<longrightarrow>
            fst (get_users env s) = JSON 200 (Users (Slice []))) \<and>
         (status (fst (get_users env s)) = 200 \<longrightarrow>
            body (fst (get_users env s)) = Users (Slice [])) \<and>
         body (fst (get_users env s)) \<noteq> Users NilSlice"
  using assms
  by (auto simp add: get_users_def Find_def cursor_All_def JSON_def issue_def
      split: option.splits)

text \<open>
  C4 on the fresh store.
\<close>

theorem get_users_empty_witness:
  "docs fresh_store = [] \<and>
   status (fst (get_users \<lparr>store_err = None, decode_err = None, new_id = 7\<rparr> fresh_store)) = 200 \<and>
   fst (get_users \<lparr>store_err = None, decode_err = None, new_id = 7\<rparr> fresh_store)
     = JSON 200 (Users (Slice []))"
proof -
  have h1: "docs fresh_store = []" by (simp add: fresh_store_def)
  from get_users_empty [OF h1, of "\<lparr>store_err = None, decode_err = None, new_id = 7\<rparr>"] h1
  show ?thesis by (simp add: JSON_def)
qed

section \<open>Updating and deleting a name that is not there\<close>

text \<open>
  C5 as stated fails: PUT /user/Bob on the empty collection, with a parsable body, gets
  500 and not 404 when \<open>UpdateOne\<close> returns an error (main.go, lines 152-154).
\<close>

theorem put_missing_counterexample:
  "BodyParser \<lparr>route_params = [(''name'', ''Bob'')],
               parsed_body = Inr \<lparr>ID = NilObjectID, Name = ''Bob'', Age = 41\<rparr>\<rparr>
     = Inr \<lparr>ID = NilObjectID, Name = ''Bob'', Age = 41\<rparr> \<and>
   Params \<lparr>route_params = [(''name'', ''Bob'')],
           parsed_body = Inr \<lparr>ID = NilObjectID, Name = ''Bob'', Age = 41\<rparr>\<rparr> ''name''
     \<notin> set (map Name (docs fresh_store)) \<and>
   status (fst (put_user
     \<lparr>store_err = Some ''context deadline exceeded'', decode_err = None, new_id = 7\<rparr>
     \<lparr>route_params = [(''name'', ''Bob'')],
      parsed_body = Inr \<lparr>ID = NilObjectID, Name = ''Bob'', Age = 41\<rparr>\<rparr>
     fresh_store)) = 500 \<and>
   status (fst (put_user
     \<lparr>store_err = Some ''context deadline exceeded'', decode_err = None, new_id = 7\<rparr>
     \<lparr>route_params = [(''name'', ''Bob'')],
      parsed_body = Inr \<lparr>ID = NilObjectID, Name = ''Bob'', Age = 41\<rparr>\<rparr>
     fresh_store)) \<noteq> 404"
  by (simp add: put_user_def BodyParser_def Params_def UpdateOne_def issue_def JSON_def
      fresh_store_def)

text \<open>
  C5, amended. For a PUT with a parsable body where no document has the path name, the
  collection is unchanged; the status is 404 when \<open>UpdateOne\<close> returns no error, and 500
  when it returns one.
\<close>

theorem put_missing:
  assumes "BodyParser c = Inr u" and "Params c ''name'' \<notin> set (map Name (docs s))"
  shows "docs (snd (put_user env c s)) = docs s \<and>
         (store_err env = None \<longrightarrow> status (fst (put_user env c s)) = 404) \<and>
         (store_err env \<noteq> None \<longrightarrow> status (fst (put_user env c s)) = 500)"
  using assms
  by (auto simp add: put_user_def UpdateOne_def issue_def JSON_def Let_def
      filter_NameIs_empty update_first_no_match split: option.splits)

text \<open>
  C5, amended, at PUT /user/Bob on a collection that holds only Alice.
\<close>

theorem put_missing_witness:
  "BodyParser \<lparr>route_params = [(''name'', ''Bob'')],
               parsed_body = Inr \<lparr>ID = NilObjectID, Name = ''Bob'', Age = 41\<rparr>\<rparr>
     = Inr \<lparr>ID = NilObjectID, Name = ''Bob'', Age = 41\<rparr> \<and>
   Params \<lparr>route_params = [(''name'', ''Bob'')],
           parsed_body = Inr \<lparr>ID = NilObjectID, Name = ''Bob'', Age = 41\<rparr>\<rparr> ''name''
     \<notin> set (map Name (docs \<lparr>docs = [\<lparr>ID = 3, Name = ''Alice'', Age = 30\<rparr>], ops = []\<rparr>)) \<and>
   docs (snd (put_user \<lparr>store_err = None, decode_err = None, new_id = 7\<rparr>
     \<lparr>route_params = [(''name'', ''Bob'')],
      parsed_body = Inr \<lparr>ID = NilObjectID, Name = ''Bob'', Age = 41\<rparr>\<rparr>
     \<lparr>docs = [\<lparr>ID = 3, Name = ''Alice'', Age = 30\<rparr>], ops = []\<rparr>))
     = [\<lparr>ID = 3, Name = ''Alice'', Age = 30\<rparr>] \<and>
   status (fst (put_user \<lparr>store_err = None, decode_err = None, new_id = 7\<rparr>
     \<lparr>route_params = [(''name'', ''Bob'')],
      parsed_body = Inr \<lparr>ID = NilObjectID, Name = ''Bob'', Age = 41\<rparr>\<rparr>
     \<lparr>docs = [\<lparr>ID = 3, Name = ''Alice'', Age = 30\<rparr>], ops = []\<rparr>)) = 404"
proof -
  let ?c = "\<lparr>route_params = [(''name'', ''Bob'')],
             parsed_body = Inr \<lparr>ID = NilObjectID, Name = ''Bob'', Age = 41\<rparr>\<rparr>"
  let ?s = "\<lparr>docs = [\<lparr>ID = 3, Name = ''Alice'', Age = 30\<rparr>], ops = []\<rparr>"
  have h1: "BodyParser ?c = Inr \<lparr>ID = NilObjectID, Name = ''Bob'', Age = 41\<rparr>"
    by (simp add: BodyParser_def)
  have h2: "Params ?c ''name'' \<notin> set (map Name (docs ?s))"
    by (simp add: Params_def)
  from put_missing [OF h1 h2, of "\<lparr>store_err = None, decode_err = None, new_id = 7\<rparr>"] h1 h2
  show ?thesis by simp
qed

text \<open>
  C6 as stated fails: DELETE /user/Carol on the empty collection gets 500 and not 404
  when \<open>DeleteOne\<close> returns an error (main.go, lines 171-173).
\<close>

theorem delete_missing_counterexample:
  "Params \<lparr>route_params = [(''name'', ''Carol'')], parsed_body = Inl []\<rparr> ''name''
     \<notin> set (map Name (docs fresh_store)) \<and>
   status (fst (delete_user
     \<lparr>store_err = Some ''server selection timeout'', decode_err = None, new_id = 7\<rparr>
     \<lparr>route_params = [(''name'', ''Carol'')], parsed_body = Inl []\<rparr> fresh_store)) = 500 \<and>
   status (fst (delete_user
     \<lparr>store_err = Some ''server selection timeout'', decode_err = None, new_id = 7\<rparr>
     \<lparr>route_params = [(''name'', ''Carol'')], parsed_body = Inl []\<rparr> fresh_store)) \<noteq> 404"
  by (simp add: delete_user_def Params_def DeleteOne_def issue_def JSON_def fresh_store_def)

text \<open>
  C6, amended. For a DELETE where no document has the path name, the collection is
  unchanged; the status is 404 when \<open>DeleteOne\<close> returns no error, and 500 when it
  returns one.
\<close>

theorem delete_missing:
  assumes "Params c ''name'' \<notin> set (map Name (docs s))"
  shows "docs (snd (delete_user env c s)) = docs s \<and>
         (store_err env = None \<longrightarrow> status (fst (delete_user env c s)) = 404) \<and>
         (store_err env \<noteq> None \<longrightarrow> status (fst (delete_user env c s)) = 500)"
  using assms
  by (auto simp add: delete_user_def DeleteOne_def issue_def JSON_def Let_def
      filter_NameIs_empty delete_first_no_match split: option.splits)

text \<open>
  C6, amended, at DELETE /user/Carol on a collection that holds only Alice.
\<close>

theorem delete_missing_witness:
  "Params \<lparr>route_params = [(''name'', ''Carol'')], parsed_body = Inl []\<rparr> ''name''
     \<notin> set (map Name (docs \<lparr>docs = [\<lparr>ID = 3, Name = ''Alice'', Age = 30\<rparr>], ops = []\<rparr>)) \<and>
   docs (snd (delete_user \<lparr>store_err = None, decode_err = None, new_id = 7\<rparr>
     \<lparr>route_params = [(''name'', ''Carol'')], parsed_body = Inl []\<rparr>
     \<lparr>docs = [\<lparr>ID = 3, Name = ''Alice'', Age = 30\<rparr>], ops = []\<rparr>))
     = [\<lparr>ID = 3, Name = ''Alice'', Age = 30\<rparr>] \<and>
   status (fst (delete_user \<lparr>store_err = None, decode_err = None, new_id = 7\<rparr>
     \<lparr>route_params = [(''name'', ''Carol'')], parsed_body = Inl []\<rparr>
     \<lparr>docs = [\<lparr>ID = 3, Name = ''Alice'', Age = 30\<rparr>], ops = []\<rparr>)) = 404"
proof -
  let ?c = "\<lparr>route_params = [(''name'', ''Carol'')], parsed_body = Inl []\<rparr>"
  let ?s = "\<lparr>docs = [\<lparr>ID = 3, Name = ''Alice'', Age = 30\<rparr>], ops = []\<rparr>"
  have h: "Params ?c ''name'' \<notin> set (map Name (docs ?s))"
    by (simp add: Params_def)
  from delete_missing [OF h, of "\<lparr>store_err = None, decode_err = None, new_id = 7\<rparr>"] h
  show ?thesis by simp
qed

section \<open>Where the \<open>_id\<close> of a created document comes from\<close>

text \<open>
  C7 as stated fails: the body
  \<open>{"_id":"000000000000000000000002","name":"Grace","age":28}\<close> is created with 201; the document sent to the store carries
  \<open>_id\<close> 2, and the stored document has the id 2, not the id 7 of the driver.
\<close>

theorem post_id_origin_counterexample:
  "status (fst (post_user \<lparr>store_err = None, decode_err = None, new_id = 7\<rparr>
     \<lparr>route_params = [], parsed_body = Inr \<lparr>ID = 2, Name = ''Grace'', Age = 28\<rparr>\<rparr>
     fresh_store)) = 201 \<and>
   ops (snd (post_user \<lparr>store_err = None, decode_err = None, new_id = 7\<rparr>
     \<lparr>route_params = [], parsed_body = Inr \<lparr>ID = 2, Name = ''Grace'', Age = 28\<rparr>\<rparr>
     fresh_store))
     = [OpInsertOne \<lparr>bson_id = Some 2, bson_name = ''Grace'', bson_age = 28\<rparr>] \<and>
   docs (snd (post_user \<lparr>store_err = None, decode_err = None, new_id = 7\<rparr>
     \<lparr>route_params = [], parsed_body = Inr \<lparr>ID = 2, Name = ''Grace'', Age = 28\<rparr>\<rparr>
     fresh_store))
     = [\<lparr>ID = 2, Name = ''Grace'', Age = 28\<rparr>] \<and>
   (2 :: ObjectID) \<noteq> new_id \<lparr>store_err = None, decode_err = None, new_id = 7\<rparr>"
  by (simp add: post_user_def BodyParser_def InsertOne_def marshal_User_def NilObjectID_def
      issue_def JSON_def fresh_store_def)

text \<open>
  C7, amended. For every document persisted by POST /user (status 201) exactly one
  document is sent to the store, the marshalled user. When the body carries no \<open>_id\<close>
  (the zero ObjectID), the document sent has no \<open>_id\<close> and the stored one gets the id
  the driver generates; when the body carries an \<open>_id\<close>, that id is sent and stored.
\<close>

theorem post_id_origin:
  assumes "status (fst (post_user env c s)) = 201"
  shows "\<exists>u. BodyParser c = Inr u \<and>
           ops (snd (post_user env c s)) = ops s @ [OpInsertOne (marshal_User u)] \<and>
           (ID u = NilObjectID \<longrightarrow>
              bson_id (marshal_User u) = None \<and>
              docs (snd (post_user env c s)) =
                docs s @ [\<lparr>ID = new_id env, Name = Name u, Age = Age u\<rparr>]) \<and>
           (ID u \<noteq> NilObjectID \<longrightarrow>
              bson_id (marshal_User u) = Some (ID u) \<and>
              docs (snd (post_user env c s)) = docs s @ [u])"
  using assms
  by (auto simp add: post_user_def InsertOne_def marshal_User_def issue_def JSON_def Let_def
      split: sum.splits option.splits if_splits)

text \<open>
  C7, amended, at a body without \<open>_id\<close> and at a body with \<open>_id\<close> 2.
\<close>

theorem post_id_origin_witness:
  "status (fst (post_user \<lparr>store_err = None, decode_err = None, new_id = 7\<rparr>
     \<lparr>route_params = [], parsed_body = Inr \<lparr>ID = NilObjectID, Name = ''Frank'', Age = 19\<rparr>\<rparr>
     fresh_store)) = 201 \<and>
   (\<exists>u. BodyParser \<lparr>route_params = [],
                    parsed_body = Inr \<lparr>ID = NilObjectID, Name = ''Frank'', Age = 19\<rparr>\<rparr> = Inr u \<and>
     ID u = NilObjectID \<and> bson_id (marshal_User u) = None \<and>
     docs (snd (post_user \<lparr>store_err = None, decode_err = None, new_id = 7\<rparr>
       \<lparr>route_params = [], parsed_body = Inr \<lparr>ID = NilObjectID, Name = ''Frank'', Age = 19\<rparr>\<rparr>
       fresh_store)) = docs fresh_store @ [\<lparr>ID = 7, Name = Name u, Age = Age u\<rparr>]) \<and>
   status (fst (post_user \<lparr>store_err = None, decode_err = None, new_id = 7\<rparr>
     \<lparr>route_params = [], parsed_body = Inr \<lparr>ID = 2, Name = ''Grace'', Age = 28\<rparr>\<rparr>
     fresh_store)) = 201 \<and>
   (\<exists>u. BodyParser \<lparr>route_params = [],
                    parsed_body = Inr \<lparr>ID = 2, Name = ''Grace'', Age = 28\<rparr>\<rparr> = Inr u \<and>
     ID u \<noteq> NilObjectID \<and> bson_id (marshal_User u) = Some (ID u) \<and>
     docs (snd (post_user \<lparr>store_err = None, decode_err = None, new_id = 7\<rparr>
       \<lparr>route_params = [], parsed_body = Inr \<lparr>ID = 2, Name = ''Grace'', Age = 28\<rparr>\<rparr>
       fresh_store)) = docs fresh_store @ [u])"
proof -
  let ?env = "\<lparr>store_err = None, decode_err = None, new_id = 7\<rparr>"
  let ?c1 = "\<lparr>route_params = [],
              parsed_body = Inr \<lparr>ID = NilObjectID, Name = ''Frank'', Age = 19\<rparr>\<rparr>"
  let ?c2 = "\<lparr>route_params = [], parsed_body = Inr \<lparr>ID = 2, Name = ''Grace'', Age = 28\<rparr>\<rparr>"
  have h1: "status (fst (post_user ?env ?c1 fresh_store)) = 201"
    by (simp add: post_user_def BodyParser_def InsertOne_def marshal_User_def
        NilObjectID_def issue_def JSON_def fresh_store_def)
  have h2: "status (fst (post_user ?env ?c2 fresh_store)) = 201"
    by (simp add: post_user_def BodyParser_def InsertOne_def marshal_User_def
        NilObjectID_def issue_def JSON_def fresh_store_def)
  from post_id_origin [OF h1] post_id_origin [OF h2] h1 h2 show ?thesis
    by (simp add: BodyParser_def NilObjectID_def)
qed

section \<open>Startup\<close>

text \<open>
  C8. If \<open>MONGO_URI\<close> reads as the empty string once \<open>loadEnv\<close> has run (the variable
  is absent, the \<open>.env\<close> files being the other way to set it), or \<open>mongo.Connect\<close> returns
  an error, or \<open>Ping\<close> does, then \<open>main\<close> exits with status 1, the last thing it does is
  write a log message, and it has not started to listen.
\<close>

theorem startup_fatal:
  assumes "os_Getenv (loadEnv w) ''MONGO_URI'' = [] \<or>
           connect w (os_Getenv (loadEnv w) ''MONGO_URI'') \<noteq> None \<or>
           ping w (os_Getenv (loadEnv w) ''MONGO_URI'') \<noteq> None"
  shows "\<exists>w' evs msg. main w = Exit 1 w' \<and> out w' = out w @ evs @ [Log msg] \<and>
           filter is_Listen evs = []"
proof -
  let ?w0 = "loadEnv w"
  from loadEnv_frame[of w] obtain evs0 where
    f: "connect ?w0 = connect w" "ping ?w0 = ping w"
       "out ?w0 = out w @ evs0" "filter is_Listen evs0 = []"
    by blast
  from assms f have "os_Getenv ?w0 ''MONGO_URI'' = [] \<or>
           connect ?w0 (os_Getenv ?w0 ''MONGO_URI'') \<noteq> None \<or>
           ping ?w0 (os_Getenv ?w0 ''MONGO_URI'') \<noteq> None"
    by (auto simp add: os_Getenv_def)
  from connectMongoDB_fatal[OF this] obtain w' evs msg where
    c: "connectMongoDB ?w0 = Exit 1 w'" "out w' = out ?w0 @ evs @ [Log msg]"
       "filter is_Listen evs = []"
    by blast
  from c(1) have "main w = Exit 1 w'" by (simp add: main_def)
  moreover from c(2) f(3) have "out w' = out w @ (evs0 @ evs) @ [Log msg]" by simp
  moreover from c(3) f(4) have "filter is_Listen (evs0 @ evs) = []" by simp
  ultimately show ?thesis by blast
qed

text \<open>
  C8 with no variable and no file, with a refused connection, and with a ping that fails
  after \<open>../.env\<close> supplied the connection string.
\<close>

theorem startup_fatal_witness:
  "os_Getenv (loadEnv \<lparr>environ = Map.empty, dotenv_files = Map.empty,
       connect = (\<lambda>uri. None), ping = (\<lambda>uri. None), out = []\<rparr>) ''MONGO_URI'' = [] \<and>
   (\<exists>w' evs msg.
      main \<lparr>environ = Map.empty, dotenv_files = Map.empty,
            connect = (\<lambda>uri. None), ping = (\<lambda>uri. None), out = []\<rparr> = Exit 1 w' \<and>
      out w' = evs @ [Log msg] \<and> filter is_Listen evs = []) \<and>
   connect \<lparr>environ = [''MONGO_URI'' \<mapsto> ''mongodb://db:27017''], dotenv_files = Map.empty,
       connect = (\<lambda>uri. Some ''connection refused''), ping = (\<lambda>uri. None), out = []\<rparr>
     (os_Getenv (loadEnv \<lparr>environ = [''MONGO_URI'' \<mapsto> ''mongodb://db:27017''],
        dotenv_files = Map.empty,
        connect = (\<lambda>uri. Some ''connection refused''), ping = (\<lambda>uri. None), out = []\<rparr>)
        ''MONGO_URI'') \<noteq> None \<and>
   (\<exists>w' evs msg.
      main \<lparr>environ = [''MONGO_URI'' \<mapsto> ''mongodb://db:27017''], dotenv_files = Map.empty,
            connect = (\<lambda>uri. Some ''connection refused''), ping = (\<lambda>uri. None), out = []\<rparr>
        = Exit 1 w' \<and>
      out w' = evs @ [Log msg] \<and> filter is_Listen evs = []) \<and>
   ping \<lparr>environ = Map.empty,
       dotenv_files = [''../.env'' \<mapsto> [''MONGO_URI'' \<mapsto> ''mongodb://db:27017'']],
       connect = (\<lambda>uri. None), ping = (\<lambda>uri. Some ''server selection timeout''), out = []\<rparr>
     (os_Getenv (loadEnv \<lparr>environ = Map.empty,
        dotenv_files = [''../.env'' \<mapsto> [''MONGO_URI'' \<mapsto> ''mongodb://db:27017'']],
        connect = (\<lambda>uri. None), ping = (\<lambda>uri. Some ''server selection timeout''), out = []\<rparr>)
        ''MONGO_URI'') \<noteq> None \<and>
   (\<exists>w' evs msg.
      main \<lparr>environ = Map.empty,
            dotenv_files = [''../.env'' \<mapsto> [''MONGO_URI'' \<mapsto> ''mongodb://db:27017'']],
            connect = (\<lambda>uri. None), ping = (\<lambda>uri. Some ''server selection timeout''), out = []\<rparr>
        = Exit 1 w' \<and>
      out w' = evs @ [Log msg] \<and> filter is_Listen evs = [])"
proof -
  let ?w1 = "\<lparr>environ = Map.empty, dotenv_files = Map.empty,
       connect = (\<lambda>uri. None), ping = (\<lambda>uri. None), out = []\<rparr>"
  let ?w2 = "\<lparr>environ = [''MONGO_URI'' \<mapsto> ''mongodb://db:27017''], dotenv_files = Map.empty,
       connect = (\<lambda>uri. Some ''connection refused''), ping = (\<lambda>uri. None), out = []\<rparr>"
  let ?w3 = "\<lparr>environ = Map.empty,
       dotenv_files = [''../.env'' \<mapsto> [''MONGO_URI'' \<mapsto> ''mongodb://db:27017'']],
       connect = (\<lambda>uri. None), ping = (\<lambda>uri. Some ''server selection timeout''), out = []\<rparr>"
  have h1: "os_Getenv (loadEnv ?w1) ''MONGO_URI'' = []"
    by (simp add: loadEnv_def godotenv_Load_def os_Getenv_def)
  have h2: "connect ?w2 (os_Getenv (loadEnv ?w2) ''MONGO_URI'') \<noteq> None" by simp
  have h3: "ping ?w3 (os_Getenv (loadEnv ?w3) ''MONGO_URI'') \<noteq> None" by simp
  have a1: "os_Getenv (loadEnv ?w1) ''MONGO_URI'' = [] \<or>
            connect ?w1 (os_Getenv (loadEnv ?w1) ''MONGO_URI'') \<noteq> None \<or>
            ping ?w1 (os_Getenv (loadEnv ?w1) ''MONGO_URI'') \<noteq> None"
    using h1 by blast
  have a2: "os_Getenv (loadEnv ?w2) ''MONGO_URI'' = [] \<or>
            connect ?w2 (os_Getenv (loadEnv ?w2) ''MONGO_URI'') \<noteq> None \<or>
            ping ?w2 (os_Getenv (loadEnv ?w2) ''MONGO_URI'') \<noteq> None"
    using h2 by blast
  have a3: "os_Getenv (loadEnv ?w3) ''MONGO_URI'' = [] \<or>
            connect ?w3 (os_Getenv (loadEnv ?w3) ''MONGO_URI'') \<noteq> None \<or>
            ping ?w3 (os_Getenv (loadEnv ?w3) ''MONGO_URI'') \<noteq> None"
    using h3 by blast
  from startup_fatal [OF a1] startup_fatal [OF a2] startup_fatal [OF a3] h1 h2 h3
  show ?thesis by simp
qed

section \<open>PUT does not validate the name\<close>

text \<open>
  C9 as stated fails: PUT /user/Alice with a body without name, on a collection that
  holds Alice, gets 500 and not 200 when \<open>UpdateOne\<close> returns an error (main.go, lines
  152-154).
\<close>

theorem put_empty_name_counterexample:
  "BodyParser \<lparr>route_params = [(''name'', ''Alice'')],
               parsed_body = Inr \<lparr>ID = NilObjectID, Name = [], Age = 44\<rparr>\<rparr>
     = Inr \<lparr>ID = NilObjectID, Name = [], Age = 44\<rparr> \<and>
   Params \<lparr>route_params = [(''name'', ''Alice'')],
           parsed_body = Inr \<lparr>ID = NilObjectID, Name = [], Age = 44\<rparr>\<rparr> ''name''
     \<in> set (map Name (docs \<lparr>docs = [\<lparr>ID = 3, Name = ''Alice'', Age = 30\<rparr>], ops = []\<rparr>)) \<and>
   status (fst (put_user
     \<lparr>store_err = Some ''connection reset by peer'', decode_err = None, new_id = 7\<rparr>
     \<lparr>route_params = [(''name'', ''Alice'')],
      parsed_body = Inr \<lparr>ID = NilObjectID, Name = [], Age = 44\<rparr>\<rparr>
     \<lparr>docs = [\<lparr>ID = 3, Name = ''Alice'', Age = 30\<rparr>], ops = []\<rparr>)) = 500 \<and>
   status (fst (put_user
     \<lparr>store_err = Some ''connection reset by peer'', decode_err = None, new_id = 7\<rparr>
     \<lparr>route_params = [(''name'', ''Alice'')],
      parsed_body = Inr \<lparr>ID = NilObjectID, Name = [], Age = 44\<rparr>\<rparr>
     \<lparr>docs = [\<lparr>ID = 3, Name = ''Alice'', Age = 30\<rparr>], ops = []\<rparr>)) \<noteq> 200"
  by (simp add: put_user_def BodyParser_def Params_def UpdateOne_def issue_def JSON_def)

text \<open>
  C9, amended. For a parsable PUT body with an empty or missing name, if a document has
  the path name and \<open>UpdateOne\<close> returns no error, the handler returns 200 and the first
  document with the path name gets the empty name and the age of the body, the others
  staying as they are; and no document that POST /user adds to a collection has an empty
  name.
\<close>

theorem put_empty_name:
  assumes "BodyParser c = Inr u" and "Name u = []"
    and "Params c ''name'' \<in> set (map Name (docs s))"
    and "store_err env = None"
  shows "status (fst (put_user env c s)) = 200 \<and>
         (\<exists>pre d post. docs s = pre @ d # post \<and>
            Params c ''name'' \<notin> set (map Name pre) \<and> Name d = Params c ''name'' \<and>
            docs (snd (put_user env c s)) = pre @ d\<lparr>Name := [], Age := Age u\<rparr> # post) \<and>
         (\<forall>env' c' s' d'. d' \<in> set (docs (snd (post_user env' c' s'))) \<longrightarrow>
            d' \<notin> set (docs s') \<longrightarrow> Name d' \<noteq> [])"
proof (intro conjI)
  show "status (fst (put_user env c s)) = 200"
    using assms
    by (simp add: put_user_def UpdateOne_def issue_def JSON_def Let_def filter_NameIs_empty)
  from update_first_split[OF assms(3), of "[]" "Age u"]
  obtain pre d post where h: "docs s = pre @ d # post"
      "Params c ''name'' \<notin> set (map Name pre)" "Name d = Params c ''name''"
      "update_first (NameIs (Params c ''name'')) [] (Age u) (docs s)
         = pre @ d\<lparr>Name := [], Age := Age u\<rparr> # post"
    by blast
  have "docs (snd (put_user env c s))
          = update_first (NameIs (Params c ''name'')) [] (Age u) (docs s)"
    using assms
    by (simp add: put_user_def UpdateOne_def issue_def JSON_def Let_def filter_NameIs_empty)
  with h show "\<exists>pre d post. docs s = pre @ d # post \<and>
            Params c ''name'' \<notin> set (map Name pre) \<and> Name d = Params c ''name'' \<and>
            docs (snd (put_user env c s)) = pre @ d\<lparr>Name := [], Age := Age u\<rparr> # post"
    by metis
  show "\<forall>env' c' s' d'. d' \<in> set (docs (snd (post_user env' c' s'))) \<longrightarrow>
            d' \<notin> set (docs s') \<longrightarrow> Name d' \<noteq> []"
    by (auto simp add: post_user_def InsertOne_def marshal_User_def issue_def Let_def
        split: sum.splits option.splits if_splits)
qed

text \<open>
  C9, amended, at PUT /user/Alice with the body \<open>{"age":44}\<close>.
\<close>

theorem put_empty_name_witness:
  "BodyParser \<lparr>route_params = [(''name'', ''Alice'')],
               parsed_body = Inr \<lparr>ID = NilObjectID, Name = [], Age = 44\<rparr>\<rparr>
     = Inr \<lparr>ID = NilObjectID, Name = [], Age = 44\<rparr> \<and>
   Name \<lparr>ID = NilObjectID, Name = [], Age = 44 :: go_int\<rparr> = [] \<and>
   Params \<lparr>route_params = [(''name'', ''Alice'')],
           parsed_body = Inr \<lparr>ID = NilObjectID, Name = [], Age = 44\<rparr>\<rparr> ''name''
     \<in> set (map Name (docs \<lparr>docs = [\<lparr>ID = 3, Name = ''Alice'', Age = 30\<rparr>], ops = []\<rparr>)) \<and>
   store_err \<lparr>store_err = None, decode_err = None, new_id = 7\<rparr> = None \<and>
   status (fst (put_user \<lparr>store_err = None, decode_err = None, new_id = 7\<rparr>
     \<lparr>route_params = [(''name'', ''Alice'')],
      parsed_body = Inr \<lparr>ID = NilObjectID, Name = [], Age = 44\<rparr>\<rparr>
     \<lparr>docs = [\<lparr>ID = 3, Name = ''Alice'', Age = 30\<rparr>], ops = []\<rparr>)) = 200 \<and>
   docs (snd (put_user \<lparr>store_err = None, decode_err = None, new_id = 7\<rparr>
     \<lparr>route_params = [(''name'', ''Alice'')],
      parsed_body = Inr \<lparr>ID = NilObjectID, Name = [], Age = 44\<rparr>\<rparr>
     \<lparr>docs = [\<lparr>ID = 3, Name = ''Alice'', Age = 30\<rparr>], ops = []\<rparr>))
     = [\<lparr>ID = 3, Name = [], Age = 44\<rparr>]"
proof -
  let ?u = "\<lparr>ID = NilObjectID, Name = [], Age = 44 :: go_int\<rparr>"
  let ?c = "\<lparr>route_params = [(''name'', ''Alice'')], parsed_body = Inr ?u\<rparr>"
  let ?s = "\<lparr>docs = [\<lparr>ID = 3, Name = ''Alice'', Age = 30\<rparr>], ops = []\<rparr>"
  let ?env = "\<lparr>store_err = None, decode_err = None, new_id = 7\<rparr>"
  have h1: "BodyParser ?c = Inr ?u" by (simp add: BodyParser_def)
  have h2: "Name ?u = []" by simp
  have h3: "Params ?c ''name'' \<in> set (map Name (docs ?s))" by (simp add: Params_def)
  have h4: "store_err ?env = None" by simp
  have d: "docs (snd (put_user ?env ?c ?s)) = [\<lparr>ID = 3, Name = [], Age = 44\<rparr>]"
    by (simp add: put_user_def BodyParser_def Params_def UpdateOne_def issue_def)
  from put_empty_name [OF h1 h2 h3 h4] h1 h2 h3 h4 d show ?thesis by simp
qed

section \<open>The echoed user of a created document\<close>

text \<open>
  C10. Every POST /user that answers 201 answers with three members: the message, the
  inserted id under \<open>id\<close>, and under \<open>user\<close> the struct as parsed from the request, so with
  the \<open>_id\<close> of the request. When the request carried none, the echoed \<open>_id\<close> is the zero
  ObjectID while \<open>id\<close> is the generated one, and the two differ as soon as the generated
  id is not the zero ObjectID.
\<close>

theorem post_echo:
  assumes "status (fst (post_user env c s)) = 201"
  shows "\<exists>u. BodyParser c = Inr u \<and>
           fst (post_user env c s) =
             JSON 201 (FiberMap
               [(''message'', JString ''User created successfully''),
                (''id'', JObjectID (if ID u = NilObjectID then new_id env else ID u)),
                (''user'', JUser u)]) \<and>
           field (fst (post_user env c s)) ''user'' = Some (JUser u) \<and>
           (ID u = NilObjectID \<longrightarrow>
              field (fst (post_user env c s)) ''id'' = Some (JObjectID (new_id env))) \<and>
           (ID u = NilObjectID \<and> new_id env \<noteq> NilObjectID \<longrightarrow>
              field (fst (post_user env c s)) ''id'' \<noteq> Some (JObjectID (ID u)))"
  using assms
  by (auto simp add: post_user_def InsertOne_def marshal_User_def issue_def JSON_def Let_def
      field_def split: sum.splits option.splits if_splits)

text \<open>
  C10 at the body \<open>{"name":"Heidi","age":63}\<close> with the generated id 7.
\<close>

theorem post_echo_witness:
  "status (fst (post_user \<lparr>store_err = None, decode_err = None, new_id = 7\<rparr>
     \<lparr>route_params = [], parsed_body = Inr \<lparr>ID = NilObjectID, Name = ''Heidi'', Age = 63\<rparr>\<rparr>
     fresh_store)) = 201 \<and>
   new_id \<lparr>store_err = None, decode_err = None, new_id = 7\<rparr> \<noteq> NilObjectID \<and>
   field (fst (post_user \<lparr>store_err = None, decode_err = None, new_id = 7\<rparr>
     \<lparr>route_params = [], parsed_body = Inr \<lparr>ID = NilObjectID, Name = ''Heidi'', Age = 63\<rparr>\<rparr>
     fresh_store)) ''user'' = Some (JUser \<lparr>ID = NilObjectID, Name = ''Heidi'', Age = 63\<rparr>) \<and>
   field (fst (post_user \<lparr>store_err = None, decode_err = None, new_id = 7\<rparr>
     \<lparr>route_params = [], parsed_body = Inr \<lparr>ID = NilObjectID, Name = ''Heidi'', Age = 63\<rparr>\<rparr>
     fresh_store)) ''id'' = Some (JObjectID 7) \<and>
   field (fst (post_user \<lparr>store_err = None, decode_err = None, new_id = 7\<rparr>
     \<lparr>route_params = [], parsed_body = Inr \<lparr>ID = NilObjectID, Name = ''Heidi'', Age = 63\<rparr>\<rparr>
     fresh_store)) ''id'' \<noteq> Some (JObjectID NilObjectID)"
proof -
  let ?env = "\<lparr>store_err = None, decode_err = None, new_id = 7\<rparr>"
  let ?c = "\<lparr>route_params = [],
             parsed_body = Inr \<lparr>ID = NilObjectID, Name = ''Heidi'', Age = 63\<rparr>\<rparr>"
  have h1: "status (fst (post_user ?env ?c fresh_store)) = 201"
    by (simp add: post_user_def BodyParser_def InsertOne_def marshal_User_def
        issue_def JSON_def fresh_store_def)
  have h2: "new_id ?env \<noteq> NilObjectID" by (simp add: NilObjectID_def)
  from post_echo [OF h1] h1 h2 show ?thesis by (auto simp add: BodyParser_def)
qed

end
